theory Spec2Isabelle
  imports Main "HOL-Library.Word" "HOL-Library.Sublist"
begin

section \<open>Data model of bccdata.go\<close>

text \<open>
  Go pointers to objects that live outside this package (\<open>*sql.DB\<close>, \<open>*sql.Tx\<close>,
  \<open>*sql.Stmt\<close>, \<open>*sql.Rows\<close>), the \<open>sql.Result\<close> interface and the factory function
  value are opaque handles; \<open>None\<close> is Go's \<open>nil\<close>.
\<close>

type_synonym db_handle = "nat option"
type_synonym tx_handle = "nat option"
type_synonym stmt_handle = "nat option"
type_synonym rows_handle = "nat option"
type_synonym result_handle = "nat option"
type_synonym factory = "nat option"

text \<open>
  A Go map is a reference: copying a struct that holds a map copies the reference, not
  the table. Map values therefore live in a store and structs hold addresses
  (\<open>None\<close> is the nil map). \<open>*DatabaseContext\<close> is an address into the store too.
\<close>

type_synonym map_ref = "nat option"
type_synonym context_ptr = "nat option"

record EntityRelationship =
  EntityName :: string
  JoinTableName :: string
  ForeignKey :: string
  TargetKey :: string

record EntityDescription =
  Name :: string
  TableName :: string
  PrimaryKey :: string
  Relationships :: map_ref
  InsertStatement :: stmt_handle
  CreateZeroInstance :: factory
  Context :: context_ptr

record DatabaseContext =
  Database :: db_handle
  EntityDescriptions :: map_ref

text \<open>The zero values that Go yields for a missing map key.\<close>

definition zero_EntityRelationship :: EntityRelationship where
  "zero_EntityRelationship =
     \<lparr>EntityName = [], JoinTableName = [], ForeignKey = [], TargetKey = []\<rparr>"

definition zero_EntityDescription :: EntityDescription where
  "zero_EntityDescription =
     \<lparr>Name = [], TableName = [], PrimaryKey = [], Relationships = None,
      InsertStatement = None, CreateZeroInstance = None, Context = None\<rparr>"

text \<open>
  The store: the context objects, the tables of the description maps and of the
  relationship maps, and for each kind of table the next address that \<open>make\<close> hands out.
\<close>

record heap =
  contexts :: "nat \<Rightarrow> DatabaseContext"
  desc_maps :: "nat \<Rightarrow> (string \<rightharpoonup> EntityDescription)"
  rel_maps :: "nat \<Rightarrow> (string \<rightharpoonup> EntityRelationship)"
  next_desc_map :: nat
  next_rel_map :: nat

datatype panic = NilDereference | NilMapAssignment | IndexOutOfRange | ForeignPanic string

section \<open>Entity descriptions (lines 37-49)\<close>

text \<open>
  \<open>RegisterEntityDescription\<close> has a pointer receiver and takes the description by
  value; it returns nothing and updates the store. A nil receiver panics at the first
  field access.
\<close>

definition RegisterEntityDescription ::
    "context_ptr \<Rightarrow> EntityDescription \<Rightarrow> heap \<Rightarrow> panic + heap" where
  "RegisterEntityDescription databaseContext entityDescription h =
     (case databaseContext of
        None \<Rightarrow> Inl NilDereference
      | Some c \<Rightarrow>
          let h1 = (case EntityDescriptions (contexts h c) of
                      None \<Rightarrow>
                        h\<lparr>desc_maps := (desc_maps h)(next_desc_map h := Map.empty),
                          contexts := (contexts h)
                            (c := (contexts h c)\<lparr>EntityDescriptions := Some (next_desc_map h)\<rparr>),
                          next_desc_map := Suc (next_desc_map h)\<rparr>
                    | Some m \<Rightarrow> h);
              entityDescription' = entityDescription\<lparr>Context := Some c\<rparr>
          in (case EntityDescriptions (contexts h1 c) of
                None \<Rightarrow> Inl NilMapAssignment
              | Some m \<Rightarrow>
                  Inr (h1\<lparr>desc_maps := (desc_maps h1)
                         (m := (desc_maps h1 m)(Name entityDescription' \<mapsto> entityDescription'))\<rparr>)))"

text \<open>
  The lookups return the store next to the value, so that "the lookup changes nothing"
  is a statement about the model. Reading a nil map or a missing key yields the zero value.
\<close>

definition EntityDescriptionForName ::
    "context_ptr \<Rightarrow> string \<Rightarrow> heap \<Rightarrow> (panic + EntityDescription) \<times> heap" where
  "EntityDescriptionForName databaseContext entityName h =
     (case databaseContext of
        None \<Rightarrow> (Inl NilDereference, h)
      | Some c \<Rightarrow>
          (case EntityDescriptions (contexts h c) of
             None \<Rightarrow> (Inr zero_EntityDescription, h)
           | Some m \<Rightarrow>
               (case desc_maps h m entityName of
                  None \<Rightarrow> (Inr zero_EntityDescription, h)
                | Some d \<Rightarrow> (Inr d, h))))"

section \<open>Entity relationships (lines 53-63)\<close>

text \<open>
  The receiver \<open>*EntityDescription\<close> points at a variable of the caller; the model
  passes that variable's value in and returns its new value with the new store.
\<close>

definition RegisterRelationship ::
    "EntityDescription \<Rightarrow> EntityRelationship \<Rightarrow> heap \<Rightarrow> EntityDescription \<times> heap" where
  "RegisterRelationship entityDescription entityRelationship h =
     (case Relationships entityDescription of
        None \<Rightarrow>
          (entityDescription\<lparr>Relationships := Some (next_rel_map h)\<rparr>,
           h\<lparr>rel_maps := (rel_maps h)
                (next_rel_map h := [EntityName entityRelationship \<mapsto> entityRelationship]),
             next_rel_map := Suc (next_rel_map h)\<rparr>)
      | Some m \<Rightarrow>
          (entityDescription,
           h\<lparr>rel_maps := (rel_maps h)
                (m := (rel_maps h m)(EntityName entityRelationship \<mapsto> entityRelationship))\<rparr>))"

definition RelationshipForName ::
    "EntityDescription \<Rightarrow> string \<Rightarrow> heap \<Rightarrow> EntityRelationship \<times> heap" where
  "RelationshipForName entityDescription entityName h =
     (case Relationships entityDescription of
        None \<Rightarrow> (zero_EntityRelationship, h)
      | Some m \<Rightarrow>
          (case rel_maps h m entityName of
             None \<Rightarrow> (zero_EntityRelationship, h)
           | Some r \<Rightarrow> (r, h)))"

section \<open>The datastore, the clock, the factory and the Row Scanner\<close>

text \<open>
  \<open>database/sql\<close>, \<open>time.Now\<close>, the factory of a description and \<open>ScanFromRow\<close>
  of the concrete entity types are outside the package. Every call to them is recorded
  in a log, and what a call answers is a function of the calls made before it and of
  its arguments: a \<open>driver\<close>. A call may panic instead of answering (a nil receiver
  inside \<open>database/sql\<close>, a scanner that panics). A Go result pair \<open>(x, err)\<close> is a
  pair; \<open>None\<close> is the nil error.
\<close>

datatype error = Error string

datatype sqlval = VInt64 "64 word" | VString string | VNil

datatype call =
    DB_Begin db_handle
  | Tx_Stmt tx_handle stmt_handle
  | Stmt_Exec stmt_handle "sqlval list"
  | Result_LastInsertId result_handle
  | Time_Now
  | Tx_Exec tx_handle string "sqlval list"
  | Tx_Query tx_handle string "sqlval list"
  | DB_Query db_handle string "sqlval list"
  | Factory_Call nat
  | Entity_ScanFromRow rows_handle
  | Rows_Close rows_handle
  | Stmt_Close stmt_handle
  | Tx_Commit tx_handle
  | Tx_Rollback tx_handle

record 'e driver =
  db_Begin :: "call list \<Rightarrow> db_handle \<Rightarrow> panic + (tx_handle \<times> error option)"
  tx_Stmt :: "call list \<Rightarrow> tx_handle \<Rightarrow> stmt_handle \<Rightarrow> panic + stmt_handle"
  stmt_Exec ::
    "call list \<Rightarrow> stmt_handle \<Rightarrow> sqlval list \<Rightarrow> panic + (result_handle \<times> error option)"
  result_LastInsertId :: "call list \<Rightarrow> result_handle \<Rightarrow> panic + (64 word \<times> error option)"
  time_Now_Unix :: "call list \<Rightarrow> 64 word"
  tx_Exec ::
    "call list \<Rightarrow> tx_handle \<Rightarrow> string \<Rightarrow> sqlval list \<Rightarrow> panic + (result_handle \<times> error option)"
  tx_Query ::
    "call list \<Rightarrow> tx_handle \<Rightarrow> string \<Rightarrow> sqlval list \<Rightarrow> panic + (rows_handle \<times> error option)"
  db_Query ::
    "call list \<Rightarrow> db_handle \<Rightarrow> string \<Rightarrow> sqlval list \<Rightarrow> panic + (rows_handle \<times> error option)"
  factory_call :: "call list \<Rightarrow> nat \<Rightarrow> panic + 'e option"
  entity_ScanFromRow ::
    "call list \<Rightarrow> 'e \<Rightarrow> rows_handle \<Rightarrow> panic + ('e \<times> bool \<times> error option)"
  rows_Close :: "call list \<Rightarrow> rows_handle \<Rightarrow> panic + error option"
  stmt_Close :: "call list \<Rightarrow> stmt_handle \<Rightarrow> panic + error option"
  tx_Commit :: "call list \<Rightarrow> tx_handle \<Rightarrow> panic + error option"
  tx_Rollback :: "call list \<Rightarrow> tx_handle \<Rightarrow> panic + error option"

section \<open>Entity creation (lines 67-162)\<close>

text \<open>
  The label \<open>cleanup\<close> of \<open>Create\<close> (lines 125-142). The two \<open>defer\<close>s run after the
  commit or rollback, last registered first; a deferred call runs also when an earlier
  call has panicked, and the panic that leaves the function is the last one raised.
\<close>

definition Create_cleanup ::
    "'e driver \<Rightarrow> rows_handle \<Rightarrow> stmt_handle \<Rightarrow> bool \<Rightarrow> tx_handle \<Rightarrow> 'e option \<Rightarrow> error option
      \<Rightarrow> call list \<Rightarrow> (panic + ('e option \<times> error option)) \<times> call list" where
  "Create_cleanup d rows insertStatement commitAtEnd transaction entity err L =
     (let (p1, L1) =
            (if commitAtEnd then
               (if err \<noteq> None then
                  (case tx_Rollback d L transaction of Inl p \<Rightarrow> Some p | Inr _ \<Rightarrow> None,
                   L @ [Tx_Rollback transaction])
                else
                  (case tx_Commit d L transaction of Inl p \<Rightarrow> Some p | Inr _ \<Rightarrow> None,
                   L @ [Tx_Commit transaction]))
             else (None, L));
          (p2, L2) =
            (if insertStatement \<noteq> None then
               (case stmt_Close d L1 insertStatement of Inl p \<Rightarrow> Some p | Inr _ \<Rightarrow> p1,
                L1 @ [Stmt_Close insertStatement])
             else (p1, L1));
          (p3, L3) =
            (if rows \<noteq> None then
               (case rows_Close d L2 rows of Inl p \<Rightarrow> Some p | Inr _ \<Rightarrow> p2,
                L2 @ [Rows_Close rows])
             else (p2, L2))
      in (case p3 of Some p \<Rightarrow> (Inl p, L3) | None \<Rightarrow> (Inr (entity, err), L3)))"

text \<open>Lines 92-123: the statements between the transaction set-up and the label.\<close>

definition Create_steps ::
    "'e driver \<Rightarrow> EntityDescription \<Rightarrow> tx_handle \<Rightarrow> bool \<Rightarrow> sqlval list
      \<Rightarrow> call list \<Rightarrow> (panic + ('e option \<times> error option)) \<times> call list" where
  "Create_steps d entityDescription transaction commitAtEnd args L =
     (let L1 = L @ [Tx_Stmt transaction (InsertStatement entityDescription)] in
      case tx_Stmt d L transaction (InsertStatement entityDescription) of
        Inl p \<Rightarrow> (Inl p, L1)
      | Inr insertStatement \<Rightarrow>
     (let L2 = L1 @ [Stmt_Exec insertStatement args] in
      case stmt_Exec d L1 insertStatement args of
        Inl p \<Rightarrow> (Inl p, L2)
      | Inr (result, err) \<Rightarrow>
      if err \<noteq> None then
        Create_cleanup d None insertStatement commitAtEnd transaction None err L2
      else if result = None then (Inl NilDereference, L2)
      else
     (let L3 = L2 @ [Result_LastInsertId result] in
      case result_LastInsertId d L2 result of
        Inl p \<Rightarrow> (Inl p, L3)
      | Inr (objectID, err) \<Rightarrow>
      if err \<noteq> None then
        Create_cleanup d None insertStatement commitAtEnd transaction None err L3
      else
     (let tableName = TableName entityDescription;
          createdTime = time_Now_Unix d L3;
          L4 = L3 @ [Time_Now];
          updateCreatedDateSQL = ''UPDATE '' @ tableName @ '' SET createdDate=? WHERE id=?'';
          L5 = L4 @ [Tx_Exec transaction updateCreatedDateSQL [VInt64 createdTime, VInt64 objectID]]
      in
      case tx_Exec d L4 transaction updateCreatedDateSQL [VInt64 createdTime, VInt64 objectID] of
        Inl p \<Rightarrow> (Inl p, L5)
      | Inr (result, err) \<Rightarrow>
      if err \<noteq> None then
        Create_cleanup d None insertStatement commitAtEnd transaction None err L5
      else
     (let querySQL = ''SELECT * FROM '' @ tableName @ '' WHERE id=?'';
          L6 = L5 @ [Tx_Query transaction querySQL [VInt64 objectID]]
      in
      case tx_Query d L5 transaction querySQL [VInt64 objectID] of
        Inl p \<Rightarrow> (Inl p, L6)
      | Inr (rows, err) \<Rightarrow>
      if err \<noteq> None then
        Create_cleanup d rows insertStatement commitAtEnd transaction None err L6
      else
     (case CreateZeroInstance entityDescription of
        None \<Rightarrow> (Inl NilDereference, L6)
      | Some f \<Rightarrow>
     (let L7 = L6 @ [Factory_Call f] in
      case factory_call d L6 f of
        Inl p \<Rightarrow> (Inl p, L7)
      | Inr None \<Rightarrow> (Inl NilDereference, L7)
      | Inr (Some entity0) \<Rightarrow>
     (let L8 = L7 @ [Entity_ScanFromRow rows] in
      case entity_ScanFromRow d L7 entity0 rows of
        Inl p \<Rightarrow> (Inl p, L8)
      | Inr (entity, scanSuccess, err) \<Rightarrow>
      if \<not> scanSuccess then
        Create_cleanup d rows insertStatement commitAtEnd transaction (Some entity) err L8
      else
        Create_cleanup d rows insertStatement commitAtEnd transaction (Some entity) err L8))))))))"

text \<open>Lines 81-90 and the whole of \<open>Create\<close>.\<close>

definition Create ::
    "'e driver \<Rightarrow> heap \<Rightarrow> EntityDescription \<Rightarrow> tx_handle \<Rightarrow> sqlval list
      \<Rightarrow> call list \<Rightarrow> (panic + ('e option \<times> error option)) \<times> call list" where
  "Create d h entityDescription transaction args L =
     (if transaction = None then
        (case Context entityDescription of
           None \<Rightarrow> (Inl NilDereference, L)
         | Some c \<Rightarrow>
             (let L1 = L @ [DB_Begin (Database (contexts h c))] in
              case db_Begin d L (Database (contexts h c)) of
                Inl p \<Rightarrow> (Inl p, L1)
              | Inr (transaction', err) \<Rightarrow>
                  if err \<noteq> None then Create_cleanup d None None True transaction' None err L1
                  else Create_steps d entityDescription transaction' True args L1))
      else Create_steps d entityDescription transaction False args L)"

text \<open>
  \<open>CreateFromRows\<close> (lines 145-162): the loop has no bound of its own; it ends when the
  scanner reports that it consumed no row. \<open>None\<close> is the loop that never ends.
\<close>

partial_function (option) CreateFromRows_loop ::
    "'e driver \<Rightarrow> EntityDescription \<Rightarrow> rows_handle \<Rightarrow> 'e list
      \<Rightarrow> call list \<Rightarrow> ((panic + ('e list \<times> error option)) \<times> call list) option" where
  "CreateFromRows_loop d entityDescription rows entities L =
     (case CreateZeroInstance entityDescription of
        None \<Rightarrow> Some (Inl NilDereference, L)
      | Some f \<Rightarrow>
          (case factory_call d L f of
             Inl p \<Rightarrow> Some (Inl p, L @ [Factory_Call f])
           | Inr None \<Rightarrow> Some (Inl NilDereference, L @ [Factory_Call f])
           | Inr (Some entity0) \<Rightarrow>
               (case entity_ScanFromRow d (L @ [Factory_Call f]) entity0 rows of
                  Inl p \<Rightarrow> Some (Inl p, L @ [Factory_Call f, Entity_ScanFromRow rows])
                | Inr (entity, scanSuccess, err) \<Rightarrow>
                    if \<not> scanSuccess then
                      Some (Inr (entities, err), L @ [Factory_Call f, Entity_ScanFromRow rows])
                    else
                      CreateFromRows_loop d entityDescription rows (entities @ [entity])
                        (L @ [Factory_Call f, Entity_ScanFromRow rows]))))"

definition CreateFromRows ::
    "'e driver \<Rightarrow> EntityDescription \<Rightarrow> rows_handle
      \<Rightarrow> call list \<Rightarrow> ((panic + ('e list \<times> error option)) \<times> call list) option" where
  "CreateFromRows d entityDescription rows L = CreateFromRows_loop d entityDescription rows [] L"

section \<open>Entity find (lines 166-244)\<close>

text \<open>The label \<open>cleanup\<close> of \<open>FindEntities\<close> (lines 205-208).\<close>

definition FindEntities_cleanup ::
    "'e driver \<Rightarrow> rows_handle \<Rightarrow> 'e list \<Rightarrow> error option
      \<Rightarrow> call list \<Rightarrow> (panic + ('e list \<times> error option)) \<times> call list" where
  "FindEntities_cleanup d rows entities err L =
     (case rows_Close d L rows of
        Inl p \<Rightarrow> (Inl p, L @ [Rows_Close rows])
      | Inr _ \<Rightarrow> (Inr (entities, err), L @ [Rows_Close rows]))"

text \<open>
  Lines 189-193 and, word for word, lines 235-239: the query goes to the transaction
  when there is one and to the connection of the owning context otherwise.
\<close>

definition query_rows ::
    "'e driver \<Rightarrow> heap \<Rightarrow> EntityDescription \<Rightarrow> tx_handle \<Rightarrow> string \<Rightarrow> sqlval
      \<Rightarrow> call list \<Rightarrow> panic + ((panic + (rows_handle \<times> error option)) \<times> call list)" where
  "query_rows d h entityDescription transaction selectStatement val L =
     (if transaction \<noteq> None then
        Inr (tx_Query d L transaction selectStatement [val],
             L @ [Tx_Query transaction selectStatement [val]])
      else
        (case Context entityDescription of
           None \<Rightarrow> Inl NilDereference
         | Some c \<Rightarrow>
             Inr (db_Query d L (Database (contexts h c)) selectStatement [val],
                  L @ [DB_Query (Database (contexts h c)) selectStatement [val]])))"

definition FindEntities ::
    "'e driver \<Rightarrow> heap \<Rightarrow> EntityDescription \<Rightarrow> tx_handle \<Rightarrow> string option \<Rightarrow> sqlval
      \<Rightarrow> call list \<Rightarrow> ((panic + ('e list \<times> error option)) \<times> call list) option" where
  "FindEntities d h entityDescription transaction keyName val L =
     (let tableName = TableName entityDescription;
          columnName = (case keyName of None \<Rightarrow> PrimaryKey entityDescription | Some k \<Rightarrow> k);
          selectStatement = ''SELECT * FROM '' @ tableName @ '' WHERE '' @ columnName @ ''=?''
      in
      case query_rows d h entityDescription transaction selectStatement val L of
        Inl p \<Rightarrow> Some (Inl p, L)
      | Inr (Inl p, L1) \<Rightarrow> Some (Inl p, L1)
      | Inr (Inr (rows, err), L1) \<Rightarrow>
          if err \<noteq> None then Some (FindEntities_cleanup d rows [] err L1)
          else
            (case CreateFromRows d entityDescription rows L1 of
               None \<Rightarrow> None
             | Some (Inl p, L2) \<Rightarrow> Some (Inl p, L2)
             | Some (Inr (entities, err), L2) \<Rightarrow>
                 if err \<noteq> None then Some (FindEntities_cleanup d rows entities err L2)
                 else Some (FindEntities_cleanup d rows entities err L2)))"

definition FindEntity ::
    "'e driver \<Rightarrow> heap \<Rightarrow> EntityDescription \<Rightarrow> tx_handle \<Rightarrow> string option \<Rightarrow> sqlval
      \<Rightarrow> call list \<Rightarrow> ((panic + ('e \<times> error option)) \<times> call list) option" where
  "FindEntity d h entityDescription transaction keyName val L =
     (case FindEntities d h entityDescription transaction keyName val L of
        None \<Rightarrow> None
      | Some (Inl p, L1) \<Rightarrow> Some (Inl p, L1)
      | Some (Inr (entities, err), L1) \<Rightarrow>
          (case entities of
             [] \<Rightarrow> Some (Inl IndexOutOfRange, L1)
           | entity # _ \<Rightarrow> Some (Inr (entity, err), L1)))"

definition FindRelatedEntity ::
    "'e driver \<Rightarrow> heap \<Rightarrow> EntityDescription \<Rightarrow> tx_handle \<Rightarrow> string \<Rightarrow> string \<Rightarrow> sqlval
      \<Rightarrow> call list \<Rightarrow> ((panic + ('e list \<times> error option)) \<times> call list) option" where
  "FindRelatedEntity d h entityDescription transaction targetEntityName queryKey queryValue L =
     (let relationship = fst (RelationshipForName entityDescription targetEntityName h) in
      case fst (EntityDescriptionForName (Context entityDescription) targetEntityName h) of
        Inl p \<Rightarrow> Some (Inl p, L)
      | Inr targetEntityDescription \<Rightarrow>
     (let joinTableName = JoinTableName relationship;
          targetTableName = TableName targetEntityDescription;
          joinTableForeignKey = ForeignKey relationship;
          targetTableKey = TargetKey relationship;
          selectStatement =
            ''SELECT '' @ targetTableName @ ''.* FROM '' @ joinTableName
              @ '' LEFT OUTER JOIN '' @ targetTableName
              @ '' ON '' @ joinTableName @ ''.'' @ joinTableForeignKey
              @ ''='' @ targetTableName @ ''.'' @ targetTableKey
              @ '' WHERE '' @ joinTableName @ ''.'' @ queryKey @ ''=?''
      in
      case query_rows d h entityDescription transaction selectStatement queryValue L of
        Inl p \<Rightarrow> Some (Inl p, L)
      | Inr (Inl p, L1) \<Rightarrow> Some (Inl p, L1)
      | Inr (Inr (rows, err), L1) \<Rightarrow> CreateFromRows d targetEntityDescription rows L1))"

section \<open>Observations on a run\<close>


text \<open>
  \<open>cursor_yields d f rows L xs err L'\<close>: from the log \<open>L\<close> on, the factory \<open>f\<close> and the
  scanner materialize the entities \<open>xs\<close> from \<open>rows\<close>, one per call, and the call after
  the last of them reports that no row was consumed, with the error \<open>err\<close>; \<open>L'\<close> is the
  log then. This is what "the cursor holds \<open>length xs\<close> rows" means for a scanner that
  lives outside the package.
\<close>

fun cursor_yields ::
    "'e driver \<Rightarrow> nat \<Rightarrow> rows_handle \<Rightarrow> call list \<Rightarrow> 'e list \<Rightarrow> error option \<Rightarrow> call list
      \<Rightarrow> bool" where
  "cursor_yields d f rows L [] err L' =
     (case factory_call d L f of
        Inr (Some e0) \<Rightarrow>
          (case entity_ScanFromRow d (L @ [Factory_Call f]) e0 rows of
             Inr (e, scanSuccess, err') \<Rightarrow>
               \<not> scanSuccess \<and> err' = err \<and> L' = L @ [Factory_Call f, Entity_ScanFromRow rows]
           | Inl p \<Rightarrow> False)
      | Inr None \<Rightarrow> False
      | Inl p \<Rightarrow> False)"
| "cursor_yields d f rows L (x # xs) err L' =
     (case factory_call d L f of
        Inr (Some e0) \<Rightarrow>
          (case entity_ScanFromRow d (L @ [Factory_Call f]) e0 rows of
             Inr (e, scanSuccess, err') \<Rightarrow>
               scanSuccess \<and> e = x
               \<and> cursor_yields d f rows (L @ [Factory_Call f, Entity_ScanFromRow rows]) xs err L'
           | Inl p \<Rightarrow> False)
      | Inr None \<Rightarrow> False
      | Inl p \<Rightarrow> False)"

section \<open>The SQL texts as the specification writes them\<close>

text \<open>
  The templates of the specification's section on generated SQL text, with the
  placeholders in angle brackets as parameters. The functions above build their
  statements with \<open>fmt.Sprintf\<close>; the theorems compare the two.
\<close>

definition spec_timestamp_sql :: "string \<Rightarrow> string" where
  "spec_timestamp_sql table = ''UPDATE '' @ table @ '' SET createdDate=? WHERE id=?''"

definition spec_reselect_sql :: "string \<Rightarrow> string" where
  "spec_reselect_sql table = ''SELECT * FROM '' @ table @ '' WHERE id=?''"

definition spec_find_sql :: "string \<Rightarrow> string \<Rightarrow> string" where
  "spec_find_sql table column = ''SELECT * FROM '' @ table @ '' WHERE '' @ column @ ''=?''"

definition spec_related_find_sql :: "string \<Rightarrow> string \<Rightarrow> string \<Rightarrow> string \<Rightarrow> string \<Rightarrow> string" where
  "spec_related_find_sql target_table join_table foreign_key target_key query_key =
     ''SELECT '' @ target_table @ ''.* FROM '' @ join_table @ '' LEFT OUTER JOIN '' @ target_table
       @ '' ON '' @ join_table @ ''.'' @ foreign_key @ ''='' @ target_table @ ''.'' @ target_key
       @ '' WHERE '' @ join_table @ ''.'' @ query_key @ ''=?''"

text \<open>
  The call that carries a query, and its answer: the transaction's when one is
  supplied, the connection's of the context at address \<open>c\<close> otherwise.
\<close>

definition query_call :: "heap \<Rightarrow> nat \<Rightarrow> tx_handle \<Rightarrow> string \<Rightarrow> sqlval \<Rightarrow> call" where
  "query_call h c transaction sql val =
     (case transaction of
        Some t \<Rightarrow> Tx_Query (Some t) sql [val]
      | None \<Rightarrow> DB_Query (Database (contexts h c)) sql [val])"

definition query_answer ::
    "'e driver \<Rightarrow> heap \<Rightarrow> nat \<Rightarrow> tx_handle \<Rightarrow> string \<Rightarrow> sqlval \<Rightarrow> call list
      \<Rightarrow> panic + (rows_handle \<times> error option)" where
  "query_answer d h c transaction sql val L =
     (case transaction of
        Some t \<Rightarrow> tx_Query d L (Some t) sql [val]
      | None \<Rightarrow> db_Query d L (Database (contexts h c)) sql [val])"

section \<open>A concrete datastore and registry\<close>

text \<open>
  A driver for concrete runs: every call succeeds, the insert yields the key 42, the
  clock reads 1000, a query yields the cursor 11 (or no cursor and the error \<open>qerr\<close>),
  and a cursor holds \<open>k\<close> rows: scan number \<open>n\<close> of the run populates the entity \<open>n\<close>
  while \<open>n \<le> k\<close> and reports no row afterwards. Entities are numbers; 0 is the blank one.
\<close>

fun scans_done :: "call list \<Rightarrow> nat" where
  "scans_done [] = 0"
| "scans_done (Entity_ScanFromRow _ # L) = Suc (scans_done L)"
| "scans_done (_ # L) = scans_done L"

definition demo_driver :: "nat \<Rightarrow> error option \<Rightarrow> nat driver" where
  "demo_driver k qerr =
     \<lparr>db_Begin = (\<lambda>L db. Inr (Some 7, None)),
      tx_Stmt = (\<lambda>L tx st. Inr (Some 8)),
      stmt_Exec = (\<lambda>L st args. Inr (Some 9, None)),
      result_LastInsertId = (\<lambda>L r. Inr (42, None)),
      time_Now_Unix = (\<lambda>L. 1000),
      tx_Exec = (\<lambda>L tx q args. Inr (Some 10, None)),
      tx_Query = (\<lambda>L tx q args. Inr (if qerr = None then Some 11 else None, qerr)),
      db_Query = (\<lambda>L db q args. Inr (if qerr = None then Some 11 else None, qerr)),
      factory_call = (\<lambda>L f. Inr (Some 0)),
      entity_ScanFromRow = (\<lambda>L e rows.
         if scans_done L < k then Inr (Suc (scans_done L), True, None)
         else Inr (e, False, None)),
      rows_Close = (\<lambda>L rows. Inr None),
      stmt_Close = (\<lambda>L st. Inr None),
      tx_Commit = (\<lambda>L tx. Inr None),
      tx_Rollback = (\<lambda>L tx. Inr None)\<rparr>"

definition heap0 :: heap where
  "heap0 =
     \<lparr>contexts = (\<lambda>a. \<lparr>Database = Some 1, EntityDescriptions = None\<rparr>),
      desc_maps = (\<lambda>a. Map.empty),
      rel_maps = (\<lambda>a. Map.empty),
      next_desc_map = 0,
      next_rel_map = 0\<rparr>"

definition lists_description :: EntityDescription where
  "lists_description =
     \<lparr>Name = ''lists'', TableName = ''lists'', PrimaryKey = ''id'', Relationships = None,
      InsertStatement = Some 5, CreateZeroInstance = Some 0, Context = None\<rparr>"

definition placemarks_description :: EntityDescription where
  "placemarks_description =
     \<lparr>Name = ''placemarks'', TableName = ''placemarks'', PrimaryKey = ''id'',
      Relationships = None, InsertStatement = Some 6, CreateZeroInstance = Some 1,
      Context = None\<rparr>"

definition users_description :: EntityDescription where
  "users_description =
     \<lparr>Name = ''users'', TableName = ''users'', PrimaryKey = ''uid'', Relationships = None,
      InsertStatement = Some 4, CreateZeroInstance = Some 2, Context = Some 0\<rparr>"

definition lists_placemarks :: EntityRelationship where
  "lists_placemarks =
     \<lparr>EntityName = ''placemarks'', JoinTableName = ''lists_placemarks'',
      ForeignKey = ''placemarksID'', TargetKey = ''id''\<rparr>"

definition lists_tags :: EntityRelationship where
  "lists_tags =
     \<lparr>EntityName = ''tags'', JoinTableName = ''lists_tags'',
      ForeignKey = ''tagsID'', TargetKey = ''id''\<rparr>"

text \<open>
  A start-up sequence: \<open>lists\<close> gets its first relationship, is registered in the
  context at address 0, and gets a second relationship afterwards.
\<close>

definition lists_with_placemarks :: EntityDescription where
  "lists_with_placemarks = fst (RegisterRelationship lists_description lists_placemarks heap0)"

definition heap1 :: heap where
  "heap1 = snd (RegisterRelationship lists_description lists_placemarks heap0)"

definition heap2 :: heap where
  "heap2 = projr (RegisterEntityDescription (Some 0) lists_with_placemarks heap1)"

definition heap3 :: heap where
  "heap3 = snd (RegisterRelationship lists_with_placemarks lists_tags heap2)"

text \<open>The same context with \<open>placemarks\<close> registered as well.\<close>

definition heap4 :: heap where
  "heap4 = projr (RegisterEntityDescription (Some 0) placemarks_description heap2)"

text \<open>
  Another start-up sequence: \<open>lists\<close> is registered first, without any
  relationship, and its owner registers the relationship afterwards.
\<close>

definition heap5 :: heap where
  "heap5 = projr (RegisterEntityDescription (Some 0) lists_description heap0)"

definition heap6 :: heap where
  "heap6 = snd (RegisterRelationship lists_description lists_placemarks heap5)"

definition registered_lists :: EntityDescription where
  "registered_lists = lists_with_placemarks\<lparr>Context := Some 0\<rparr>"

section \<open>Shared lemmas\<close>




lemma Create_cleanup_extends:
  "\<exists>ev. snd (Create_cleanup d rows st commit tx e err L) = L @ ev"
  unfolding Create_cleanup_def Let_def
  by (cases commit; cases "err"; cases "st"; cases rows; simp split: sum.split)

lemma Create_cleanup_prefix:
  "prefix K L \<Longrightarrow> prefix K (snd (Create_cleanup d rows st commit tx e err L))"
  using Create_cleanup_extends [of d rows st commit tx e err L]
  by (metis prefix_order.trans prefixI)


lemma cursor_yields_Nil:
  "cursor_yields d f rows L [] err L' \<longleftrightarrow>
     (\<exists>e0 e. factory_call d L f = Inr (Some e0)
        \<and> entity_ScanFromRow d (L @ [Factory_Call f]) e0 rows = Inr (e, False, err)
        \<and> L' = L @ [Factory_Call f, Entity_ScanFromRow rows])"
proof (cases "factory_call d L f")
  case (Inl p)
  then show ?thesis by simp
next
  case (Inr z)
  show ?thesis
  proof (cases z)
    case None
    with Inr show ?thesis by simp
  next
    case (Some e0)
    show ?thesis
    proof (cases "entity_ScanFromRow d (L @ [Factory_Call f]) e0 rows")
      case (Inl p)
      with Inr Some show ?thesis by simp
    next
      case (Inr t)
      with \<open>factory_call d L f = Inr z\<close> Some show ?thesis by (cases t) auto
    qed
  qed
qed

lemma cursor_yields_Cons:
  "cursor_yields d f rows L (x # xs) err L' \<longleftrightarrow>
     (\<exists>e0 err'. factory_call d L f = Inr (Some e0)
        \<and> entity_ScanFromRow d (L @ [Factory_Call f]) e0 rows = Inr (x, True, err')
        \<and> cursor_yields d f rows (L @ [Factory_Call f, Entity_ScanFromRow rows]) xs err L')"
proof (cases "factory_call d L f")
  case (Inl p)
  then show ?thesis by simp
next
  case (Inr z)
  show ?thesis
  proof (cases z)
    case None
    with Inr show ?thesis by simp
  next
    case (Some e0)
    show ?thesis
    proof (cases "entity_ScanFromRow d (L @ [Factory_Call f]) e0 rows")
      case (Inl p)
      with Inr Some show ?thesis by simp
    next
      case (Inr t)
      with \<open>factory_call d L f = Inr z\<close> Some show ?thesis by (cases t) auto
    qed
  qed
qed

text \<open>The loop returns what the cursor yields, after what it had accumulated.\<close>

lemma loop_yields:
  "cursor_yields d f rows L xs err L' \<Longrightarrow> CreateZeroInstance ed = Some f \<Longrightarrow>
     CreateFromRows_loop d ed rows acc L = Some (Inr (acc @ xs, err), L')"
proof (induction xs arbitrary: acc L)
  case Nil
  from Nil.prems(1) obtain e0 e where
    f: "factory_call d L f = Inr (Some e0)" and
    s: "entity_ScanFromRow d (L @ [Factory_Call f]) e0 rows = Inr (e, False, err)" and
    l: "L' = L @ [Factory_Call f, Entity_ScanFromRow rows]"
    unfolding cursor_yields_Nil by blast
  show ?case
    by (subst CreateFromRows_loop.simps) (simp add: f s l Nil.prems(2))
next
  case (Cons x xs)
  from Cons.prems(1) obtain e0 err' where
    f: "factory_call d L f = Inr (Some e0)" and
    s: "entity_ScanFromRow d (L @ [Factory_Call f]) e0 rows = Inr (x, True, err')" and
    r: "cursor_yields d f rows (L @ [Factory_Call f, Entity_ScanFromRow rows]) xs err L'"
    unfolding cursor_yields_Cons by blast
  have "CreateFromRows_loop d ed rows acc L =
        CreateFromRows_loop d ed rows (acc @ [x]) (L @ [Factory_Call f, Entity_ScanFromRow rows])"
    by (subst CreateFromRows_loop.simps) (simp add: f s Cons.prems(2))
  also have "\<dots> = Some (Inr ((acc @ [x]) @ xs, err), L')"
    using r Cons.prems(2) by (rule Cons.IH)
  finally show ?case by simp
qed

lemma cursor_yields_prefix: "cursor_yields d f rows L xs err L' \<Longrightarrow> prefix L L'"
proof (induction xs arbitrary: L)
  case Nil
  then show ?case unfolding cursor_yields_Nil by auto
next
  case (Cons x xs)
  from Cons.prems
  have "cursor_yields d f rows (L @ [Factory_Call f, Entity_ScanFromRow rows]) xs err L'"
    unfolding cursor_yields_Cons by blast
  from Cons.IH[OF this] show ?case by (meson append_prefixD)
qed

lemma query_rows_answer:
  "transaction = None \<longrightarrow> Context ed = Some c \<Longrightarrow>
     query_rows d h ed transaction sql val L =
       Inr (query_answer d h c transaction sql val L, L @ [query_call h c transaction sql val])"
  by (cases transaction) (auto simp: query_rows_def query_answer_def query_call_def)

lemma FindEntities_drain:
  assumes ctx: "transaction = None \<longrightarrow> Context ed = Some c"
    and q: "query_answer d h c transaction
              (spec_find_sql (TableName ed) (case keyName of None \<Rightarrow> PrimaryKey ed | Some k \<Rightarrow> k))
              val L = Inr (rows, None)"
    and f: "CreateZeroInstance ed = Some f"
    and y: "cursor_yields d f rows
              (L @ [query_call h c transaction
                 (spec_find_sql (TableName ed) (case keyName of None \<Rightarrow> PrimaryKey ed | Some k \<Rightarrow> k))
                 val]) xs None L2"
    and c: "rows_Close d L2 rows = Inr cerr"
  shows "FindEntities d h ed transaction keyName val L
           = Some (Inr (xs, None), L2 @ [Rows_Close rows])"
proof -
  let ?sql = "''SELECT * FROM '' @ TableName ed @ '' WHERE ''
                @ (case keyName of None \<Rightarrow> PrimaryKey ed | Some k \<Rightarrow> k) @ ''=?''"
  have sql: "spec_find_sql (TableName ed) (case keyName of None \<Rightarrow> PrimaryKey ed | Some k \<Rightarrow> k) = ?sql"
    by (simp add: spec_find_sql_def)
  have qr: "query_rows d h ed transaction ?sql val L
              = Inr (Inr (rows, None), L @ [query_call h c transaction ?sql val])"
    using query_rows_answer[OF ctx, of d h ?sql val L] q unfolding sql by simp
  have lp: "CreateFromRows d ed rows (L @ [query_call h c transaction ?sql val])
              = Some (Inr (xs, None), L2)"
    using loop_yields[OF y f, of "[]"] unfolding sql by (simp add: CreateFromRows_def)
  show ?thesis
    using qr lp c by (simp add: FindEntities_def FindEntities_cleanup_def)
qed

text \<open>Runs of the concrete datastore and the concrete registry.\<close>

lemma demo_scan:
  "entity_ScanFromRow (demo_driver k qerr) L e rows =
     (if scans_done L < k then Inr (Suc (scans_done L), True, None) else Inr (e, False, None))"
  by (simp add: demo_driver_def)

lemma demo_factory: "factory_call (demo_driver k qerr) L f = Inr (Some 0)"
  by (simp add: demo_driver_def)

lemma lists_with_placemarks_fields:
  "lists_with_placemarks = lists_description\<lparr>Relationships := Some 0\<rparr>"
  by (simp add: lists_with_placemarks_def RegisterRelationship_def lists_description_def heap0_def)

lemma heap1_fields:
  "contexts heap1 = contexts heap0" "desc_maps heap1 = desc_maps heap0"
  "rel_maps heap1 = (rel_maps heap0)(0 := [''placemarks'' \<mapsto> lists_placemarks])"
  "next_desc_map heap1 = 0" "next_rel_map heap1 = 1"
  by (simp_all add: heap1_def RegisterRelationship_def lists_description_def heap0_def
      lists_placemarks_def)

lemma heap2_eval:
  "RegisterEntityDescription (Some 0) lists_with_placemarks heap1 = Inr heap2"
  by (simp add: heap2_def RegisterEntityDescription_def Let_def heap1_fields heap0_def)

lemma heap2_fields:
  "contexts heap2 = (contexts heap0)(0 := \<lparr>Database = Some 1, EntityDescriptions = Some 0\<rparr>)"
  "desc_maps heap2 = (desc_maps heap0)(0 := [''lists'' \<mapsto> registered_lists])"
  "rel_maps heap2 = rel_maps heap1"
  "next_rel_map heap2 = 1"
  by (simp_all add: heap2_def RegisterEntityDescription_def Let_def heap1_fields heap0_def
      registered_lists_def lists_with_placemarks_fields lists_description_def)

lemma heap3_eval:
  "RegisterRelationship lists_with_placemarks lists_tags heap2 = (lists_with_placemarks, heap3)"
  by (simp add: heap3_def RegisterRelationship_def lists_with_placemarks_fields
      lists_description_def)

lemma heap3_fields:
  "contexts heap3 = contexts heap2" "desc_maps heap3 = desc_maps heap2"
  "rel_maps heap3 = (rel_maps heap2)(0 := [''placemarks'' \<mapsto> lists_placemarks, ''tags'' \<mapsto> lists_tags])"
  by (simp_all add: heap3_def RegisterRelationship_def lists_with_placemarks_fields
      lists_description_def heap2_fields heap1_fields lists_tags_def lists_placemarks_def)

lemma heap4_fields:
  "contexts heap4 = contexts heap2"
  "desc_maps heap4 = (desc_maps heap0)
     (0 := [''lists'' \<mapsto> registered_lists,
            ''placemarks'' \<mapsto> placemarks_description\<lparr>Context := Some 0\<rparr>])"
  "rel_maps heap4 = rel_maps heap1"
  by (simp_all add: heap4_def RegisterEntityDescription_def Let_def heap2_fields
      placemarks_description_def)

section \<open>The registries\<close>

text \<open>
  Claim C4. After \<open>RegisterRelationship R\<close> on a description, \<open>RelationshipForName\<close>
  of \<open>R\<close>'s target name returns \<open>R\<close> unchanged. After \<open>RegisterEntityDescription D\<close> on
  the context at \<open>c\<close> (which never panics on a non-nil context),
  \<open>EntityDescriptionForName\<close> of \<open>D\<close>'s name returns a description with the name, table
  name, primary key and relationships of \<open>D\<close> (the same map, with the same contents) and
  with the context reference \<open>c\<close>. The last registration under a name wins.
\<close>

theorem register_then_lookup:
  "(case RegisterRelationship D R h of
      (D', h') \<Rightarrow> RelationshipForName D' (EntityName R) h' = (R, h'))
   \<and> (case RegisterEntityDescription (Some c) D h of
        Inl p \<Rightarrow> False
      | Inr h' \<Rightarrow>
          (case EntityDescriptionForName (Some c) (Name D) h' of
             (Inl p, h'') \<Rightarrow> False
           | (Inr D', h'') \<Rightarrow>
               Name D' = Name D \<and> TableName D' = TableName D \<and> PrimaryKey D' = PrimaryKey D
               \<and> Relationships D' = Relationships D
               \<and> (\<forall>n. fst (RelationshipForName D' n h') = fst (RelationshipForName D n h))
               \<and> Context D' = Some c))
   \<and> (case RegisterEntityDescription (Some c) D0 h of
        Inl p \<Rightarrow> False
      | Inr h0 \<Rightarrow>
          (case RegisterEntityDescription (Some c) (D\<lparr>Name := Name D0\<rparr>) h0 of
             Inl p \<Rightarrow> False
           | Inr h' \<Rightarrow>
               fst (EntityDescriptionForName (Some c) (Name D0) h')
                 = Inr (D\<lparr>Name := Name D0, Context := Some c\<rparr>)))"
proof (intro conjI)
  show "case RegisterRelationship D R h of
          (D', h') \<Rightarrow> RelationshipForName D' (EntityName R) h' = (R, h')"
    by (simp add: RegisterRelationship_def RelationshipForName_def split: option.splits)
  show "case RegisterEntityDescription (Some c) D h of
          Inl p \<Rightarrow> False
        | Inr h' \<Rightarrow>
            (case EntityDescriptionForName (Some c) (Name D) h' of
               (Inl p, h'') \<Rightarrow> False
             | (Inr D', h'') \<Rightarrow>
                 Name D' = Name D \<and> TableName D' = TableName D \<and> PrimaryKey D' = PrimaryKey D
                 \<and> Relationships D' = Relationships D
                 \<and> (\<forall>n. fst (RelationshipForName D' n h') = fst (RelationshipForName D n h))
                 \<and> Context D' = Some c)"
    by (simp add: RegisterEntityDescription_def EntityDescriptionForName_def
        RelationshipForName_def Let_def split: option.splits)
  show "case RegisterEntityDescription (Some c) D0 h of
          Inl p \<Rightarrow> False
        | Inr h0 \<Rightarrow>
            (case RegisterEntityDescription (Some c) (D\<lparr>Name := Name D0\<rparr>) h0 of
               Inl p \<Rightarrow> False
             | Inr h' \<Rightarrow>
                 fst (EntityDescriptionForName (Some c) (Name D0) h')
                   = Inr (D\<lparr>Name := Name D0, Context := Some c\<rparr>))"
    by (simp add: RegisterEntityDescription_def EntityDescriptionForName_def Let_def
        split: option.splits)
qed

text \<open>
  Claim C9. For a name that the mapping does not hold, and also when the mapping was
  never initialized (the nil map), \<open>EntityDescriptionForName\<close> returns the zero-valued
  description and \<open>RelationshipForName\<close> the zero-valued relationship; neither raises
  anything, and both leave the store as it was.
\<close>

theorem lookup_miss_is_zero:
  "((case EntityDescriptions (contexts h c) of None \<Rightarrow> True | Some m \<Rightarrow> desc_maps h m n = None)
      \<longrightarrow> EntityDescriptionForName (Some c) n h = (Inr zero_EntityDescription, h))
   \<and> ((case Relationships D of None \<Rightarrow> True | Some m \<Rightarrow> rel_maps h m n = None)
      \<longrightarrow> RelationshipForName D n h = (zero_EntityRelationship, h))"
  by (simp add: EntityDescriptionForName_def RelationshipForName_def split: option.splits)

theorem lookup_miss_is_zero_witness:
  "EntityDescriptionForName (Some 0) ''tags'' heap2 = (Inr zero_EntityDescription, heap2)
   \<and> RelationshipForName registered_lists ''tags'' heap2 = (zero_EntityRelationship, heap2)
   \<and> EntityDescriptionForName (Some 0) ''tags'' heap0 = (Inr zero_EntityDescription, heap0)
   \<and> RelationshipForName lists_description ''tags'' heap0 = (zero_EntityRelationship, heap0)"
  using lookup_miss_is_zero [where h = heap2 and c = 0 and n = "''tags''" and D = registered_lists]
    lookup_miss_is_zero [where h = heap0 and c = 0 and n = "''tags''" and D = lists_description]
  by (simp add: heap2_fields heap1_fields registered_lists_def lists_with_placemarks_fields
      heap0_def lists_description_def)

section \<open>Create\<close>



text \<open>Two searches on the concrete datastore: one finds two rows, one finds none.\<close>

lemma demo_users_factory: "CreateZeroInstance users_description = Some 2"
  by (simp add: users_description_def)

lemma demo_ctx_db: "None = None \<longrightarrow> Context users_description = Some 0"
  by (simp add: users_description_def)

lemma demo_ctx_tx: "Some (3::nat) = None \<longrightarrow> Context users_description = Some 0"
  by simp

lemma demo_query_db:
  "query_answer (demo_driver 2 None) heap0 0 None
     (spec_find_sql (TableName users_description)
        (case None of None \<Rightarrow> PrimaryKey users_description | Some k \<Rightarrow> k))
     (VInt64 5) [] = Inr (Some 11, None)"
  by (simp add: query_answer_def demo_driver_def)

lemma demo_query_tx:
  "query_answer (demo_driver 0 None) heap0 0 (Some 3)
     (spec_find_sql (TableName users_description)
        (case Some ''name'' of None \<Rightarrow> PrimaryKey users_description | Some k \<Rightarrow> k))
     (VString ''ann'') [] = Inr (Some 11, None)"
  by (simp add: query_answer_def demo_driver_def)

lemma demo_rows_two:
  "cursor_yields (demo_driver 2 None) 2 (Some 11)
     ([] @ [query_call heap0 0 None
        (spec_find_sql (TableName users_description)
           (case None of None \<Rightarrow> PrimaryKey users_description | Some k \<Rightarrow> k))
        (VInt64 5)]) [1, 2] None
     [DB_Query (Some 1) ''SELECT * FROM users WHERE uid=?'' [VInt64 5],
      Factory_Call 2, Entity_ScanFromRow (Some 11),
      Factory_Call 2, Entity_ScanFromRow (Some 11),
      Factory_Call 2, Entity_ScanFromRow (Some 11)]"
  by (simp add: query_call_def spec_find_sql_def users_description_def heap0_def
      demo_factory demo_scan)

lemma demo_rows_none:
  "cursor_yields (demo_driver 0 None) 2 (Some 11)
     ([] @ [query_call heap0 0 (Some 3)
        (spec_find_sql (TableName users_description)
           (case Some ''name'' of None \<Rightarrow> PrimaryKey users_description | Some k \<Rightarrow> k))
        (VString ''ann'')]) [] None
     [Tx_Query (Some 3) ''SELECT * FROM users WHERE name=?'' [VString ''ann''],
      Factory_Call 2, Entity_ScanFromRow (Some 11)]"
  by (simp add: query_call_def spec_find_sql_def users_description_def demo_factory demo_scan)

lemma demo_close: "rows_Close (demo_driver k qerr) L rows = Inr None"
  by (simp add: demo_driver_def)

lemma demo_find_two:
  "FindEntities (demo_driver 2 None) heap0 users_description None None (VInt64 5) []
     = Some (Inr (1 # [2], None),
         [DB_Query (Some 1) ''SELECT * FROM users WHERE uid=?'' [VInt64 5],
          Factory_Call 2, Entity_ScanFromRow (Some 11),
          Factory_Call 2, Entity_ScanFromRow (Some 11),
          Factory_Call 2, Entity_ScanFromRow (Some 11), Rows_Close (Some 11)])"
  using FindEntities_drain [OF demo_ctx_db demo_query_db demo_users_factory demo_rows_two demo_close]
  by simp

section \<open>FindEntities and FindEntity\<close>

text \<open>
  Claim C3. \<open>FindEntities\<close> sends the text \<open>SELECT * FROM <table> WHERE <column>=?\<close>
  (the column is the key name given, the primary key of the description otherwise) to
  the transaction or, without one, to the connection of the owning context. When the
  query succeeds and the cursor yields the entities \<open>xs\<close>, one per row, and then the
  scanner reports no further row with a nil error, \<open>FindEntities\<close> returns exactly
  \<open>xs\<close>, in the order of arrival, with a nil error, after closing the cursor; with no
  row at all that is the empty sequence and a nil error.
\<close>

theorem FindEntities_returns_rows:
  assumes "transaction = None \<longrightarrow> Context ed = Some c"
    and "query_answer d h c transaction
           (spec_find_sql (TableName ed) (case keyName of None \<Rightarrow> PrimaryKey ed | Some k \<Rightarrow> k))
           val L = Inr (rows, None)"
    and "CreateZeroInstance ed = Some f"
    and "cursor_yields d f rows
           (L @ [query_call h c transaction
              (spec_find_sql (TableName ed) (case keyName of None \<Rightarrow> PrimaryKey ed | Some k \<Rightarrow> k))
              val]) xs None L2"
    and "rows_Close d L2 rows = Inr cerr"
  shows "FindEntities d h ed transaction keyName val L
           = Some (Inr (xs, None), L2 @ [Rows_Close rows])"
  using assms by (rule FindEntities_drain)

theorem FindEntities_returns_rows_witness:
  "FindEntities (demo_driver 2 None) heap0 users_description None None (VInt64 5) []
     = Some (Inr ([1, 2], None),
         [DB_Query (Some 1) ''SELECT * FROM users WHERE uid=?'' [VInt64 5],
          Factory_Call 2, Entity_ScanFromRow (Some 11),
          Factory_Call 2, Entity_ScanFromRow (Some 11),
          Factory_Call 2, Entity_ScanFromRow (Some 11), Rows_Close (Some 11)])
   \<and> FindEntities (demo_driver 0 None) heap0 users_description (Some 3) (Some ''name'')
         (VString ''ann'') []
     = Some (Inr ([], None),
         [Tx_Query (Some 3) ''SELECT * FROM users WHERE name=?'' [VString ''ann''],
          Factory_Call 2, Entity_ScanFromRow (Some 11), Rows_Close (Some 11)])"
  using FindEntities_returns_rows [OF demo_ctx_db demo_query_db demo_users_factory demo_rows_two demo_close]
    FindEntities_returns_rows [OF demo_ctx_tx demo_query_tx demo_users_factory demo_rows_none demo_close]
  by simp

text \<open>
  Claim C2. \<open>FindEntity\<close> calls \<open>FindEntities\<close> and returns the first element of the
  sequence it gets, with the error it gets. When the sequence is empty the index
  expression panics (index out of range): no blank entity and no not-found value is
  returned. In particular, a query that succeeds and matches no row makes
  \<open>FindEntity\<close> panic.
\<close>

theorem FindEntity_first_or_panic:
  "(FindEntities d h ed transaction keyName val L = Some (Inr (e # es, err), L1) \<longrightarrow>
      FindEntity d h ed transaction keyName val L = Some (Inr (e, err), L1))
   \<and> (FindEntities d h ed transaction keyName val L = Some (Inr ([], err), L1) \<longrightarrow>
      FindEntity d h ed transaction keyName val L = Some (Inl IndexOutOfRange, L1))
   \<and> ((transaction = None \<longrightarrow> Context ed = Some c) \<longrightarrow>
      query_answer d h c transaction
        (spec_find_sql (TableName ed) (case keyName of None \<Rightarrow> PrimaryKey ed | Some k \<Rightarrow> k))
        val L = Inr (rows, None) \<longrightarrow>
      CreateZeroInstance ed = Some f \<longrightarrow>
      cursor_yields d f rows
        (L @ [query_call h c transaction
           (spec_find_sql (TableName ed) (case keyName of None \<Rightarrow> PrimaryKey ed | Some k \<Rightarrow> k))
           val]) [] None L2 \<longrightarrow>
      rows_Close d L2 rows = Inr cerr \<longrightarrow>
      FindEntity d h ed transaction keyName val L
        = Some (Inl IndexOutOfRange, L2 @ [Rows_Close rows]))"
proof (intro conjI impI)
  assume "FindEntities d h ed transaction keyName val L = Some (Inr (e # es, err), L1)"
  then show "FindEntity d h ed transaction keyName val L = Some (Inr (e, err), L1)"
    by (simp add: FindEntity_def)
next
  assume "FindEntities d h ed transaction keyName val L = Some (Inr ([], err), L1)"
  then show "FindEntity d h ed transaction keyName val L = Some (Inl IndexOutOfRange, L1)"
    by (simp add: FindEntity_def)
next
  assume "transaction = None \<longrightarrow> Context ed = Some c"
    and "query_answer d h c transaction
           (spec_find_sql (TableName ed) (case keyName of None \<Rightarrow> PrimaryKey ed | Some k \<Rightarrow> k))
           val L = Inr (rows, None)"
    and "CreateZeroInstance ed = Some f"
    and "cursor_yields d f rows
           (L @ [query_call h c transaction
              (spec_find_sql (TableName ed) (case keyName of None \<Rightarrow> PrimaryKey ed | Some k \<Rightarrow> k))
              val]) [] None L2"
    and "rows_Close d L2 rows = Inr cerr"
  then have "FindEntities d h ed transaction keyName val L
               = Some (Inr ([], None), L2 @ [Rows_Close rows])"
    by (rule FindEntities_drain)
  then show "FindEntity d h ed transaction keyName val L
               = Some (Inl IndexOutOfRange, L2 @ [Rows_Close rows])"
    by (simp add: FindEntity_def)
qed

theorem FindEntity_first_or_panic_witness:
  "FindEntity (demo_driver 2 None) heap0 users_description None None (VInt64 5) []
     = Some (Inr (1, None),
         [DB_Query (Some 1) ''SELECT * FROM users WHERE uid=?'' [VInt64 5],
          Factory_Call 2, Entity_ScanFromRow (Some 11),
          Factory_Call 2, Entity_ScanFromRow (Some 11),
          Factory_Call 2, Entity_ScanFromRow (Some 11), Rows_Close (Some 11)])
   \<and> FindEntity (demo_driver 0 None) heap0 users_description (Some 3) (Some ''name'')
         (VString ''ann'') []
     = Some (Inl IndexOutOfRange,
         [Tx_Query (Some 3) ''SELECT * FROM users WHERE name=?'' [VString ''ann''],
          Factory_Call 2, Entity_ScanFromRow (Some 11), Rows_Close (Some 11)])"
  using FindEntity_first_or_panic
    [where d = "demo_driver 2 None" and h = heap0 and ed = users_description
       and transaction = None and keyName = None and val = "VInt64 5" and L = "[]"
       and e = 1 and es = "[2]" and err = None
       and ?L1.0 = "[DB_Query (Some 1) ''SELECT * FROM users WHERE uid=?'' [VInt64 5],
          Factory_Call 2, Entity_ScanFromRow (Some 11),
          Factory_Call 2, Entity_ScanFromRow (Some 11),
          Factory_Call 2, Entity_ScanFromRow (Some 11), Rows_Close (Some 11)]"]
    FindEntity_first_or_panic
    [where d = "demo_driver 0 None" and h = heap0 and ed = users_description
       and transaction = "Some 3" and keyName = "Some ''name''" and val = "VString ''ann''"
       and L = "[]" and c = 0 and rows = "Some 11" and f = 2 and cerr = None
       and ?L2.0 = "[Tx_Query (Some 3) ''SELECT * FROM users WHERE name=?'' [VString ''ann''],
          Factory_Call 2, Entity_ScanFromRow (Some 11)]"]
    demo_find_two demo_query_tx demo_users_factory demo_rows_none demo_close
  by simp

lemma FindRelatedEntity_run:
  assumes "Context ed = Some c"
    and "fst (RelationshipForName ed name h) = R"
    and "fst (EntityDescriptionForName (Some c) name h) = Inr T"
    and "query_answer d h c transaction
           (spec_related_find_sql (TableName T) (JoinTableName R) (ForeignKey R) (TargetKey R) key)
           val L = Inr (rows, qerr)"
    and "CreateZeroInstance T = Some f"
    and "cursor_yields d f rows
           (L @ [query_call h c transaction
              (spec_related_find_sql (TableName T) (JoinTableName R) (ForeignKey R) (TargetKey R) key)
              val]) xs err L'"
  shows "FindRelatedEntity d h ed transaction name key val L = Some (Inr (xs, err), L')
         \<and> prefix (L @ [query_call h c transaction
              (spec_related_find_sql (TableName T) (JoinTableName R) (ForeignKey R) (TargetKey R) key)
              val]) L'"
proof -
  let ?sql = "spec_related_find_sql (TableName T) (JoinTableName R) (ForeignKey R) (TargetKey R) key"
  have ctx: "transaction = None \<longrightarrow> Context ed = Some c"
    using assms(1) by simp
  have qr: "query_rows d h ed transaction ?sql val L
              = Inr (Inr (rows, qerr), L @ [query_call h c transaction ?sql val])"
    using query_rows_answer [OF ctx, of d h ?sql val L] assms(4) by simp
  have lp: "CreateFromRows d T rows (L @ [query_call h c transaction ?sql val])
              = Some (Inr (xs, err), L')"
    using loop_yields [OF assms(6) assms(5), of "[]"] by (simp add: CreateFromRows_def)
  have "FindRelatedEntity d h ed transaction name key val L = Some (Inr (xs, err), L')"
    using assms(1,2,3) qr lp
    by (simp add: FindRelatedEntity_def Let_def spec_related_find_sql_def)
  moreover have "prefix (L @ [query_call h c transaction ?sql val]) L'"
    using assms(6) by (rule cursor_yields_prefix)
  ultimately show ?thesis by simp
qed


text \<open>The registry of the concrete context, with \<open>lists\<close> and \<open>placemarks\<close> registered.\<close>

lemma demo_lists_context: "Context registered_lists = Some 0"
  by (simp add: registered_lists_def)

lemma demo_lists_relationship:
  "fst (RelationshipForName registered_lists ''placemarks'' heap4) = lists_placemarks"
  by (simp add: RelationshipForName_def registered_lists_def lists_with_placemarks_fields
      heap4_fields heap1_fields)

lemma demo_placemarks_registered:
  "fst (EntityDescriptionForName (Some 0) ''placemarks'' heap4)
     = Inr (placemarks_description\<lparr>Context := Some 0\<rparr>)"
  by (simp add: EntityDescriptionForName_def heap4_fields heap2_fields)

lemma demo_related_sql:
  "spec_related_find_sql (TableName placemarks_description)
     (JoinTableName lists_placemarks) (ForeignKey lists_placemarks) (TargetKey lists_placemarks)
     ''listsID''
   = ''SELECT placemarks.* FROM lists_placemarks LEFT OUTER JOIN placemarks ON lists_placemarks.placemarksID=placemarks.id WHERE lists_placemarks.listsID=?''"
  by (simp add: spec_related_find_sql_def placemarks_description_def lists_placemarks_def)

lemma demo_related_query:
  "query_answer (demo_driver k qerr) heap4 0 (Some 3) sql val L
     = Inr (if qerr = None then Some 11 else None, qerr)"
  by (simp add: query_answer_def demo_driver_def)

lemma demo_placemarks_factory:
  "CreateZeroInstance (placemarks_description\<lparr>Context := Some 0\<rparr>) = Some 1"
  by (simp add: placemarks_description_def)

lemma demo_related_rows_two:
  "cursor_yields (demo_driver 2 None) 1 (Some 11) ([] @ [query_call heap4 0 (Some 3) sql val])
     [1, 2] None
     [Tx_Query (Some 3) sql [val], Factory_Call 1, Entity_ScanFromRow (Some 11),
      Factory_Call 1, Entity_ScanFromRow (Some 11), Factory_Call 1, Entity_ScanFromRow (Some 11)]"
  by (simp add: query_call_def demo_factory demo_scan)


section \<open>FindRelatedEntity\<close>

text \<open>
  Claim C6. \<open>FindRelatedEntity\<close> looks the relationship up by the target name on the
  source description and the target description by the same name in the owning context;
  it sends exactly the text
  \<open>SELECT <target_table>.* FROM <join_table> LEFT OUTER JOIN <target_table> ON
  <join_table>.<foreign_key>=<target_table>.<target_key> WHERE <join_table>.<query_key>=?\<close>
  built from those two, to the supplied transaction or else to the connection of the
  context; and it returns the entities that the factory of the target description and
  the scanner materialize from the returned cursor, one per row, in order.
\<close>

theorem FindRelatedEntity_join:
  assumes "Context ed = Some c"
    and "fst (RelationshipForName ed name h) = R"
    and "fst (EntityDescriptionForName (Some c) name h) = Inr T"
    and "query_answer d h c transaction
           (spec_related_find_sql (TableName T) (JoinTableName R) (ForeignKey R) (TargetKey R) key)
           val L = Inr (rows, qerr)"
    and "CreateZeroInstance T = Some f"
    and "cursor_yields d f rows
           (L @ [query_call h c transaction
              (spec_related_find_sql (TableName T) (JoinTableName R) (ForeignKey R) (TargetKey R) key)
              val]) xs err L'"
  shows "FindRelatedEntity d h ed transaction name key val L = Some (Inr (xs, err), L')
         \<and> prefix (L @ [query_call h c transaction
              (spec_related_find_sql (TableName T) (JoinTableName R) (ForeignKey R) (TargetKey R) key)
              val]) L'"
  using assms by (rule FindRelatedEntity_run)

theorem FindRelatedEntity_join_witness:
  "FindRelatedEntity (demo_driver 2 None) heap4 registered_lists (Some 3) ''placemarks''
      ''listsID'' (VInt64 1) []
     = Some (Inr ([1, 2], None),
         [Tx_Query (Some 3)
            ''SELECT placemarks.* FROM lists_placemarks LEFT OUTER JOIN placemarks ON lists_placemarks.placemarksID=placemarks.id WHERE lists_placemarks.listsID=?''
            [VInt64 1],
          Factory_Call 1, Entity_ScanFromRow (Some 11),
          Factory_Call 1, Entity_ScanFromRow (Some 11),
          Factory_Call 1, Entity_ScanFromRow (Some 11)])"
proof -
  have q: "query_answer (demo_driver 2 None) heap4 0 (Some 3)
             (spec_related_find_sql (TableName (placemarks_description\<lparr>Context := Some 0\<rparr>))
                (JoinTableName lists_placemarks) (ForeignKey lists_placemarks)
                (TargetKey lists_placemarks) ''listsID'')
             (VInt64 1) [] = Inr (Some 11, None)"
    by (simp add: demo_related_query)
  from FindRelatedEntity_join
    [OF demo_lists_context demo_lists_relationship demo_placemarks_registered q
        demo_placemarks_factory demo_related_rows_two]
  show ?thesis by (simp add: demo_related_sql)
qed

section \<open>Errors of the datastore\<close>


text \<open>
  Claim C8: in \<open>Create\<close>, a scanner that reports no row makes the operation fail and,
  when \<open>Create\<close> owns the transaction, roll back. A run against it: every call succeeds,
  the re-select yields a cursor with no row, and the scanner reports no row with a nil
  error. Line 121 jumps to \<open>cleanup\<close>, where only \<open>err\<close> decides: the transaction is
  committed, and the caller gets the blank entity with a nil error.
\<close>

theorem Create_commits_when_scan_finds_no_row:
  "entity_ScanFromRow (demo_driver 0 None)
      [DB_Begin (Some 1), Tx_Stmt (Some 7) (Some 4), Stmt_Exec (Some 8) [VString ''ann''],
       Result_LastInsertId (Some 9), Time_Now,
       Tx_Exec (Some 7) ''UPDATE users SET createdDate=? WHERE id=?'' [VInt64 1000, VInt64 42],
       Tx_Query (Some 7) ''SELECT * FROM users WHERE id=?'' [VInt64 42], Factory_Call 2]
      0 (Some 11)
     = Inr (0, False, None)
   \<and> Create (demo_driver 0 None) heap0 users_description None [VString ''ann''] []
     = (Inr (Some 0, None),
        [DB_Begin (Some 1), Tx_Stmt (Some 7) (Some 4), Stmt_Exec (Some 8) [VString ''ann''],
         Result_LastInsertId (Some 9), Time_Now,
         Tx_Exec (Some 7) ''UPDATE users SET createdDate=? WHERE id=?'' [VInt64 1000, VInt64 42],
         Tx_Query (Some 7) ''SELECT * FROM users WHERE id=?'' [VInt64 42],
         Factory_Call 2, Entity_ScanFromRow (Some 11), Tx_Commit (Some 7),
         Stmt_Close (Some 8), Rows_Close (Some 11)])"
  by (simp add: Create_def Create_steps_def Create_cleanup_def demo_driver_def
      users_description_def heap0_def Let_def)

section \<open>The statements of Create\<close>

lemma Create_steps_statements:
  assumes st: "tx_Stmt d L tx (InsertStatement ed) = Inr st"
    and ex: "stmt_Exec d (L @ [Tx_Stmt tx (InsertStatement ed)]) st args = Inr (Some res, None)"
    and li: "result_LastInsertId d (L @ [Tx_Stmt tx (InsertStatement ed), Stmt_Exec st args]) (Some res)
           = Inr (objectID, None)"
    and K: "K = L @ [Tx_Stmt tx (InsertStatement ed), Stmt_Exec st args, Result_LastInsertId (Some res)]"
  shows "prefix
           (K @ [Time_Now,
                 Tx_Exec tx (spec_timestamp_sql (TableName ed))
                   [VInt64 (time_Now_Unix d K), VInt64 objectID]])
           (snd (Create_steps d ed tx commit args L))
         \<and> (tx_Exec d (K @ [Time_Now]) tx (spec_timestamp_sql (TableName ed))
               [VInt64 (time_Now_Unix d K), VInt64 objectID] = Inr (res2, None) \<longrightarrow>
             prefix
               (K @ [Time_Now,
                     Tx_Exec tx (spec_timestamp_sql (TableName ed))
                       [VInt64 (time_Now_Unix d K), VInt64 objectID],
                     Tx_Query tx (spec_reselect_sql (TableName ed)) [VInt64 objectID]])
               (snd (Create_steps d ed tx commit args L)))"
proof -
  let ?up = "Tx_Exec tx (spec_timestamp_sql (TableName ed)) [VInt64 (time_Now_Unix d K), VInt64 objectID]"
  let ?q = "Tx_Query tx (spec_reselect_sql (TableName ed)) [VInt64 objectID]"
  let ?run = "Create_steps d ed tx commit args L"
  let ?L5 = "K @ [Time_Now, ?up]"
  let ?L6 = "K @ [Time_Now, ?up, ?q]"
  have head: "?run =
    (case tx_Exec d (K @ [Time_Now]) tx (spec_timestamp_sql (TableName ed))
            [VInt64 (time_Now_Unix d K), VInt64 objectID] of
       Inl p \<Rightarrow> (Inl p, ?L5)
     | Inr (result, err) \<Rightarrow>
         if err \<noteq> None then Create_cleanup d None st commit tx None err ?L5
         else
           (case tx_Query d ?L5 tx (spec_reselect_sql (TableName ed)) [VInt64 objectID] of
              Inl p \<Rightarrow> (Inl p, ?L6)
            | Inr (rows, err) \<Rightarrow>
                if err \<noteq> None then Create_cleanup d rows st commit tx None err ?L6
                else
                  (case CreateZeroInstance ed of
                     None \<Rightarrow> (Inl NilDereference, ?L6)
                   | Some f \<Rightarrow>
                       (case factory_call d ?L6 f of
                          Inl p \<Rightarrow> (Inl p, ?L6 @ [Factory_Call f])
                        | Inr None \<Rightarrow> (Inl NilDereference, ?L6 @ [Factory_Call f])
                        | Inr (Some entity0) \<Rightarrow>
                            (case entity_ScanFromRow d (?L6 @ [Factory_Call f]) entity0 rows of
                               Inl p \<Rightarrow> (Inl p, ?L6 @ [Factory_Call f, Entity_ScanFromRow rows])
                             | Inr (entity, scanSuccess, err) \<Rightarrow>
                                 Create_cleanup d rows st commit tx (Some entity) err
                                   (?L6 @ [Factory_Call f, Entity_ScanFromRow rows]))))))"
    unfolding Create_steps_def Let_def K spec_timestamp_sql_def spec_reselect_sql_def
    by (simp add: st ex li cong: sum.case_cong option.case_cong if_cong)
  have pre: "prefix ?L5 X \<Longrightarrow> prefix ?L5 (snd (Create_cleanup d r s c t e er X))" for X r s c t e er
    by (rule Create_cleanup_prefix)
  have pre6: "prefix ?L6 X \<Longrightarrow> prefix ?L6 (snd (Create_cleanup d r s c t e er X))" for X r s c t e er
    by (rule Create_cleanup_prefix)
  have "prefix ?L5 (snd ?run)"
    unfolding head
    by (simp split: sum.split option.split prod.split add: pre)
  moreover have "prefix ?L6 (snd ?run)"
    if "tx_Exec d (K @ [Time_Now]) tx (spec_timestamp_sql (TableName ed))
               [VInt64 (time_Now_Unix d K), VInt64 objectID] = Inr (res2, None)"
    unfolding head that
    by (simp split: sum.split option.split prod.split add: pre6)
  ultimately show ?thesis by simp
qed

lemma Create_enters_steps:
  assumes "transaction = None \<longrightarrow>
             Context ed = Some c \<and> db_Begin d L (Database (contexts h c)) = Inr (tx, None)"
    and "transaction \<noteq> None \<longrightarrow> tx = transaction"
    and "L0 = (if transaction = None then L @ [DB_Begin (Database (contexts h c))] else L)"
  shows "Create d h ed transaction args L = Create_steps d ed tx (transaction = None) args L0"
  using assms by (cases transaction) (simp_all add: Create_def Let_def)

lemma reselect_is_find_by_id:
  "spec_reselect_sql table = spec_find_sql table column \<longleftrightarrow> column = ''id''"
proof -
  have "''id=?'' = ''id'' @ ''=?''" by simp
  then have "(''id=?'' = column @ ''=?'') = (''id'' = column)"
    by (simp only: append_same_eq)
  then show ?thesis
    by (auto simp add: spec_reselect_sql_def spec_find_sql_def)
qed

text \<open>
  Claim C7, amended. In \<open>Create\<close>, once the insert has yielded the generated key,
  the next statement on the same transaction is
  \<open>UPDATE <table> SET createdDate=? WHERE id=?\<close> with the clock reading and that key,
  and when it succeeds the next one is \<open>SELECT * FROM <table> WHERE id=?\<close> with the
  same key. The column of both conditions is the literal \<open>id\<close>, whatever the
  description's primary key is: the re-select is the search by the description's
  primary key exactly when that primary key is \<open>id\<close>.
\<close>

theorem Create_stamps_and_reselects_by_id:
  assumes "transaction = None \<longrightarrow>
             Context ed = Some c \<and> db_Begin d L (Database (contexts h c)) = Inr (tx, None)"
    and "transaction \<noteq> None \<longrightarrow> tx = transaction"
    and "L0 = (if transaction = None then L @ [DB_Begin (Database (contexts h c))] else L)"
    and "tx_Stmt d L0 tx (InsertStatement ed) = Inr st"
    and "stmt_Exec d (L0 @ [Tx_Stmt tx (InsertStatement ed)]) st args = Inr (Some res, None)"
    and "result_LastInsertId d (L0 @ [Tx_Stmt tx (InsertStatement ed), Stmt_Exec st args])
           (Some res) = Inr (objectID, None)"
    and "K = L0 @ [Tx_Stmt tx (InsertStatement ed), Stmt_Exec st args,
                   Result_LastInsertId (Some res)]"
  shows "prefix
           (K @ [Time_Now,
                 Tx_Exec tx (spec_timestamp_sql (TableName ed))
                   [VInt64 (time_Now_Unix d K), VInt64 objectID]])
           (snd (Create d h ed transaction args L))
         \<and> (tx_Exec d (K @ [Time_Now]) tx (spec_timestamp_sql (TableName ed))
               [VInt64 (time_Now_Unix d K), VInt64 objectID] = Inr (res2, None) \<longrightarrow>
             prefix
               (K @ [Time_Now,
                     Tx_Exec tx (spec_timestamp_sql (TableName ed))
                       [VInt64 (time_Now_Unix d K), VInt64 objectID],
                     Tx_Query tx (spec_reselect_sql (TableName ed)) [VInt64 objectID]])
               (snd (Create d h ed transaction args L)))
         \<and> (spec_reselect_sql (TableName ed) = spec_find_sql (TableName ed) (PrimaryKey ed)
               \<longleftrightarrow> PrimaryKey ed = ''id'')"
proof -
  have "Create d h ed transaction args L = Create_steps d ed tx (transaction = None) args L0"
    using assms(1,2,3) by (rule Create_enters_steps)
  with Create_steps_statements [OF assms(4,5,6,7), of "transaction = None" res2]
    reselect_is_find_by_id [of "TableName ed" "PrimaryKey ed"]
  show ?thesis by simp
qed

theorem Create_stamps_and_reselects_by_id_witness:
  "prefix
     [DB_Begin (Some 1), Tx_Stmt (Some 7) (Some 4), Stmt_Exec (Some 8) [VString ''ann''],
      Result_LastInsertId (Some 9), Time_Now,
      Tx_Exec (Some 7) ''UPDATE users SET createdDate=? WHERE id=?'' [VInt64 1000, VInt64 42],
      Tx_Query (Some 7) ''SELECT * FROM users WHERE id=?'' [VInt64 42]]
     (snd (Create (demo_driver 1 None) heap0 users_description None [VString ''ann''] []))
   \<and> spec_reselect_sql (TableName users_description)
       \<noteq> spec_find_sql (TableName users_description) (PrimaryKey users_description)"
proof -
  let ?d = "demo_driver 1 None"
  let ?L0 = "[DB_Begin (Some 1)]"
  let ?K = "[DB_Begin (Some 1), Tx_Stmt (Some 7) (Some 4), Stmt_Exec (Some 8) [VString ''ann''],
             Result_LastInsertId (Some 9)]"
  have 1: "None = None \<longrightarrow>
             Context users_description = Some 0
             \<and> db_Begin ?d [] (Database (contexts heap0 0)) = Inr (Some 7, None)"
    by (simp add: users_description_def demo_driver_def)
  have 2: "None \<noteq> None \<longrightarrow> Some 7 = (None :: nat option)"
    by simp
  have 3: "?L0 = (if None = (None :: nat option) then [] @ [DB_Begin (Database (contexts heap0 0))]
                  else [])"
    by (simp add: heap0_def)
  have 4: "tx_Stmt ?d ?L0 (Some 7) (InsertStatement users_description) = Inr (Some 8)"
    by (simp add: demo_driver_def)
  have 5: "stmt_Exec ?d (?L0 @ [Tx_Stmt (Some 7) (InsertStatement users_description)]) (Some 8)
             [VString ''ann''] = Inr (Some 9, None)"
    by (simp add: demo_driver_def)
  have 6: "result_LastInsertId ?d
             (?L0 @ [Tx_Stmt (Some 7) (InsertStatement users_description),
                     Stmt_Exec (Some 8) [VString ''ann'']]) (Some 9) = Inr (42, None)"
    by (simp add: demo_driver_def)
  have 7: "?K = ?L0 @ [Tx_Stmt (Some 7) (InsertStatement users_description),
                       Stmt_Exec (Some 8) [VString ''ann''], Result_LastInsertId (Some 9)]"
    by (simp add: users_description_def)
  have up: "tx_Exec ?d (?K @ [Time_Now]) (Some 7)
              (spec_timestamp_sql (TableName users_description))
              [VInt64 (time_Now_Unix ?d ?K), VInt64 42] = Inr (Some 10, None)"
    by (simp add: demo_driver_def)
  have now: "time_Now_Unix ?d ?K = 1000"
    by (simp add: demo_driver_def)
  have pk: "PrimaryKey users_description \<noteq> ''id''"
    by (simp add: users_description_def)
  from Create_stamps_and_reselects_by_id [OF 1 2 3 4 5 6 7, of "Some 10"] up now pk
  show ?thesis
    by (simp add: spec_timestamp_sql_def spec_reselect_sql_def users_description_def)
qed

text \<open>
  Claim C7 as it was stated ends: for every description, the row is the one that the
  description's primary key designates. For \<open>users\<close>, whose primary key is
  \<open>uid\<close>, the seventh call of \<open>Create\<close> is the re-select on \<open>id\<close>, and no call of
  the run carries the search by \<open>uid\<close>.
\<close>

theorem Create_reselect_by_primary_key_counterexample:
  "PrimaryKey users_description = ''uid''
   \<and> snd (Create (demo_driver 1 None) heap0 users_description None [VString ''ann''] []) ! 6
       = Tx_Query (Some 7) ''SELECT * FROM users WHERE id=?'' [VInt64 42]
   \<and> Tx_Query (Some 7)
         (spec_find_sql (TableName users_description) (PrimaryKey users_description)) [VInt64 42]
       \<notin> set (snd (Create (demo_driver 1 None) heap0 users_description None
                       [VString ''ann''] []))"
  by (simp add: Create_def Create_steps_def Create_cleanup_def demo_driver_def
      users_description_def heap0_def Let_def spec_find_sql_def)

section \<open>Copies and shared maps\<close>

text \<open>
  Claim C10, amended. \<open>RegisterEntityDescription\<close> stores a copy of the description
  struct, and the copy holds the same relationship map as the caller's description, not
  a copy of it. When the description has no relationship map yet (the nil map) at
  registration, a later \<open>RegisterRelationship\<close> on the caller's description makes a new
  map for the caller only: it is not visible through \<open>EntityDescriptionForName\<close>, and
  the contexts, the description maps and every other relationship map stay as they were.
  The same holds for a description, without a map, that \<open>EntityDescriptionForName\<close>
  returned. When the description already has a map at registration, a later
  \<open>RegisterRelationship\<close> on the caller's description writes into the shared map and
  is visible through the context.
\<close>

theorem registered_copy_shares_relationship_map:
  "(Relationships D = None \<longrightarrow> RegisterEntityDescription (Some c) D h = Inr h1 \<longrightarrow>
      RegisterRelationship D R h1 = (D2, h2) \<longrightarrow>
        (\<forall>n. fst (EntityDescriptionForName (Some c) n h2)
               = fst (EntityDescriptionForName (Some c) n h1))
        \<and> fst (EntityDescriptionForName (Some c) (Name D) h2) = Inr (D\<lparr>Context := Some c\<rparr>)
        \<and> (\<forall>n. fst (RelationshipForName (D\<lparr>Context := Some c\<rparr>) n h2)
               = zero_EntityRelationship)
        \<and> contexts h2 = contexts h1 \<and> desc_maps h2 = desc_maps h1
        \<and> (\<forall>m. m \<noteq> next_rel_map h1 \<longrightarrow> rel_maps h2 m = rel_maps h1 m))
   \<and> (fst (EntityDescriptionForName (Some c) n h) = Inr X \<longrightarrow> Relationships X = None \<longrightarrow>
      RegisterRelationship X R h = (X2, h2) \<longrightarrow>
        (\<forall>n'. fst (EntityDescriptionForName (Some c) n' h2)
                = fst (EntityDescriptionForName (Some c) n' h))
        \<and> (\<forall>m. m \<noteq> next_rel_map h \<longrightarrow> rel_maps h2 m = rel_maps h m))
   \<and> (Relationships D = Some m \<longrightarrow> RegisterEntityDescription (Some c) D h = Inr h1 \<longrightarrow>
      RegisterRelationship D R h1 = (D2, h2) \<longrightarrow>
        fst (EntityDescriptionForName (Some c) (Name D) h2) = Inr (D\<lparr>Context := Some c\<rparr>)
        \<and> fst (RelationshipForName (D\<lparr>Context := Some c\<rparr>) (EntityName R) h2) = R)"
proof -
  have nil_map:
    "(\<forall>n. fst (EntityDescriptionForName (Some c) n h2)
            = fst (EntityDescriptionForName (Some c) n h1))
     \<and> fst (EntityDescriptionForName (Some c) (Name D) h2) = Inr (D\<lparr>Context := Some c\<rparr>)
     \<and> (\<forall>n. fst (RelationshipForName (D\<lparr>Context := Some c\<rparr>) n h2)
            = zero_EntityRelationship)
     \<and> contexts h2 = contexts h1 \<and> desc_maps h2 = desc_maps h1
     \<and> (\<forall>m. m \<noteq> next_rel_map h1 \<longrightarrow> rel_maps h2 m = rel_maps h1 m)"
    if "Relationships D = None" "RegisterEntityDescription (Some c) D h = Inr h1"
      "RegisterRelationship D R h1 = (D2, h2)"
    using that
    by (auto simp: RegisterEntityDescription_def RegisterRelationship_def
        EntityDescriptionForName_def RelationshipForName_def Let_def split: option.splits)
  have looked_up:
    "(\<forall>n'. fst (EntityDescriptionForName (Some c) n' h2)
             = fst (EntityDescriptionForName (Some c) n' h))
     \<and> (\<forall>m. m \<noteq> next_rel_map h \<longrightarrow> rel_maps h2 m = rel_maps h m)"
    if "Relationships X = None" "RegisterRelationship X R h = (X2, h2)"
    using that
    by (auto simp: RegisterRelationship_def EntityDescriptionForName_def split: option.splits)
  have shared:
    "fst (EntityDescriptionForName (Some c) (Name D) h2) = Inr (D\<lparr>Context := Some c\<rparr>)
     \<and> fst (RelationshipForName (D\<lparr>Context := Some c\<rparr>) (EntityName R) h2) = R"
    if "Relationships D = Some m" "RegisterEntityDescription (Some c) D h = Inr h1"
      "RegisterRelationship D R h1 = (D2, h2)"
    using that
    by (auto simp: RegisterEntityDescription_def RegisterRelationship_def
        EntityDescriptionForName_def RelationshipForName_def Let_def split: option.splits)
  from nil_map looked_up shared show ?thesis
    by blast
qed

theorem registered_copy_shares_relationship_map_witness:
  "RegisterEntityDescription (Some 0) lists_description heap0 = Inr heap5
   \<and> fst (EntityDescriptionForName (Some 0) ''lists'' heap6)
       = Inr (lists_description\<lparr>Context := Some 0\<rparr>)
   \<and> fst (RelationshipForName (lists_description\<lparr>Context := Some 0\<rparr>) ''placemarks'' heap6)
       = zero_EntityRelationship
   \<and> fst (RelationshipForName registered_lists ''tags'' heap3) = lists_tags"
proof -
  have r: "RegisterEntityDescription (Some 0) lists_description heap0 = Inr heap5"
    by (simp add: heap5_def RegisterEntityDescription_def Let_def heap0_def)
  have n: "Relationships lists_description = None"
    by (simp add: lists_description_def)
  have s: "Relationships lists_with_placemarks = Some 0"
    by (simp add: lists_with_placemarks_fields)
  have p: "RegisterRelationship lists_description lists_placemarks heap5
             = (fst (RegisterRelationship lists_description lists_placemarks heap5), heap6)"
    by (simp add: heap6_def)
  have names: "Name lists_description = ''lists''" "EntityName lists_tags = ''tags''"
    by (simp_all add: lists_description_def lists_tags_def)
  from registered_copy_shares_relationship_map
    [where D = lists_description and c = 0 and h = heap0 and ?h1.0 = heap5
       and R = lists_placemarks
       and ?D2.0 = "fst (RegisterRelationship lists_description lists_placemarks heap5)"
       and ?h2.0 = heap6]
    r n p
  have first: "fst (EntityDescriptionForName (Some 0) (Name lists_description) heap6)
                = Inr (lists_description\<lparr>Context := Some 0\<rparr>)
     \<and> fst (RelationshipForName (lists_description\<lparr>Context := Some 0\<rparr>) ''placemarks'' heap6)
         = zero_EntityRelationship"
    by blast
  from registered_copy_shares_relationship_map
    [where D = lists_with_placemarks and c = 0 and h = heap1 and ?h1.0 = heap2
       and R = lists_tags and m = 0 and ?D2.0 = lists_with_placemarks and ?h2.0 = heap3]
    s heap2_eval heap3_eval
  have third: "fst (RelationshipForName (lists_with_placemarks\<lparr>Context := Some 0\<rparr>)
                  (EntityName lists_tags) heap3) = lists_tags"
    by blast
  from r first third show ?thesis
    by (simp add: registered_lists_def names)
qed

text \<open>
  Claim C10 as it was stated: a \<open>RegisterRelationship\<close> on the caller's description
  after the registration is not visible through \<open>EntityDescriptionForName\<close>. Here
  \<open>lists\<close> is registered with its map already made; before the late registration
  of \<open>tags\<close> the context's copy answers the zero relationship for \<open>tags\<close>, after it
  the same copy answers the new relationship.
\<close>

theorem late_relationship_is_visible_counterexample:
  "RegisterEntityDescription (Some 0) lists_with_placemarks heap1 = Inr heap2
   \<and> fst (EntityDescriptionForName (Some 0) ''lists'' heap2) = Inr registered_lists
   \<and> fst (RelationshipForName registered_lists ''tags'' heap2) = zero_EntityRelationship
   \<and> RegisterRelationship lists_with_placemarks lists_tags heap2 = (lists_with_placemarks, heap3)
   \<and> fst (EntityDescriptionForName (Some 0) ''lists'' heap3) = Inr registered_lists
   \<and> fst (RelationshipForName registered_lists ''tags'' heap3) = lists_tags
   \<and> lists_tags \<noteq> zero_EntityRelationship"
proof -
  have 1: "fst (EntityDescriptionForName (Some 0) ''lists'' heap2) = Inr registered_lists"
    by (simp add: EntityDescriptionForName_def heap2_fields)
  have 2: "fst (RelationshipForName registered_lists ''tags'' heap2) = zero_EntityRelationship"
    by (simp add: RelationshipForName_def registered_lists_def lists_with_placemarks_fields
        heap2_fields heap1_fields)
  have 3: "fst (EntityDescriptionForName (Some 0) ''lists'' heap3) = Inr registered_lists"
    by (simp add: EntityDescriptionForName_def heap3_fields heap2_fields)
  have 4: "fst (RelationshipForName registered_lists ''tags'' heap3) = lists_tags"
    by (simp add: RelationshipForName_def registered_lists_def lists_with_placemarks_fields
        heap3_fields)
  have 5: "lists_tags \<noteq> zero_EntityRelationship"
    by (simp add: lists_tags_def zero_EntityRelationship_def)
  from heap2_eval heap3_eval 1 2 3 4 5 show ?thesis
    by simp
qed

end
